theory Spec2Isabelle
  imports Main
begin

section \<open>Data model\<close>

text \<open>
  Instants are milliseconds since the epoch, as a JavaScript \<^verbatim>\<open>Date\<close> and a luxon
  \<^verbatim>\<open>DateTime\<close> count them. One request reads the clock several times
  (\<^verbatim>\<open>DateTime.now()\<close>, \<^verbatim>\<open>new Date()\<close>, the clock inside jsonwebtoken); the model
  gives every read of one request the same instant \<open>now\<close>.
\<close>

type_synonym instant = int

text \<open>
  A JavaScript \<^verbatim>\<open>Date\<close> object, as the two expiry fields of a user hold it: the
  \<^verbatim>\<open>Date\<close> of an instant, or the result of
  \<^verbatim>\<open>DateTime.now().plus({ days: n }).toJSDate()\<close> for a clock reading. luxon adds days
  by the calendar of the zone of the process, so the instant of the second kind depends
  on that zone (\<open>n\<close> times 86400000 ms later, an hour more or less across a clock
  change); the model keeps it as it is written and never computes it.
\<close>

datatype js_date = Date instant | PlusDays instant int

text \<open>
  A document of the \<^verbatim>\<open>User\<close> collection. \<open>uid\<close> is the field \<^verbatim>\<open>_id\<close>. A field that a
  document may lack (JavaScript \<^verbatim>\<open>undefined\<close>) is an option.
\<close>

record user =
  uid :: string
  email :: "string option"
  username :: string
  firstName :: "string option"
  lastName :: "string option"
  displayName :: "string option"
  password :: string
  salt :: string
  roles :: "string list"
  provider :: "string option"
  emailConfirmed :: "instant option"
  emailConfirmationToken :: "string option"
  emailConfirmationTokenExpires :: "js_date option"
  refreshToken :: "string option"
  refreshTokenExpires :: "js_date option"

text \<open>A document of the \<^verbatim>\<open>Registration\<close> collection (a pending invitation).\<close>

record registration =
  reg_id :: string
  reg_email :: "string option"
  reg_user :: "string option"

text \<open>
  A JavaScript error object, with the three properties the handlers look at:
  \<^verbatim>\<open>err.name\<close>, \<^verbatim>\<open>err.code\<close> and the keys of \<^verbatim>\<open>err.errors\<close> (\<open>None\<close> when the error
  has no \<^verbatim>\<open>errors\<close> property).
\<close>

record js_error =
  err_name :: string
  err_code :: "int option"
  err_errors :: "string list option"

definition TypeError :: js_error where
  "TypeError = \<lparr>err_name = ''TypeError'', err_code = None, err_errors = None\<rparr>"

text \<open>
  What a resolver throws: an apollo \<^verbatim>\<open>UserInputError\<close> with its message (the named
  failure kinds), or any other exception that leaves the resolver uncaught.
\<close>

datatype error = UserInputError string | Thrown js_error

text \<open>The message sent by \<^verbatim>\<open>smtpTransport.sendMail\<close>.\<close>

record mail =
  mail_to :: "string option"
  mail_from :: string
  mail_subject :: string
  mail_validationURL :: string

text \<open>
  The world the resolvers act on: the two collections, the messages handed to the SMTP
  transport, and the errors handed to \<^verbatim>\<open>Bugsnag.notify\<close>, oldest first.
\<close>

record world =
  users :: "user list"
  registrations :: "registration list"
  outbox :: "mail list"
  bugsnag :: "js_error list"

subsection \<open>Collaborators that are not part of the sources\<close>

text \<open>
  The payload \<^verbatim>\<open>{ id, roles }\<close> that is signed; the older resolver signs a payload
  without \<^verbatim>\<open>roles\<close>.
\<close>

record userinfo =
  userinfo_id :: string
  userinfo_roles :: "string list option"

text \<open>
  The library jsonwebtoken, taken as a parameter. \<^verbatim>\<open>jwt.sign(payload, secret, options)\<close>
  gets the payload, the secret, the option \<^verbatim>\<open>expiresIn\<close> (\<open>None\<close> when the call passes
  no options) and the clock. \<^verbatim>\<open>jwt.verify(token, secret)\<close> is called without a
  callback: in that synchronous form the library returns the decoded payload, and it
  throws (\<^verbatim>\<open>JsonWebTokenError\<close>, \<^verbatim>\<open>TokenExpiredError\<close>) for a token it does not accept.
  \<open>Returns None\<close> is a falsy payload.
\<close>

datatype verified = Throws js_error | Returns "userinfo option"

record jsonwebtoken =
  jwt_sign :: "userinfo \<Rightarrow> string \<Rightarrow> string option \<Rightarrow> instant \<Rightarrow> string"
  jwt_verify :: "string \<Rightarrow> string \<Rightarrow> instant \<Rightarrow> verified"

text \<open>The signing secrets of the environment.\<close>

record env =
  JWT_ACCESS_TOKEN_SECRET :: string
  JWT_REFRESH_TOKEN_SECRET :: string
  JWT_SECRET :: string

text \<open>The arguments of \<^verbatim>\<open>signUp\<close>; an argument the caller left out is \<open>None\<close>.\<close>

record signup_args =
  args_firstName :: "string option"
  args_lastName :: "string option"
  args_email :: "string option"
  args_password :: "string option"

text \<open>
  The \<^verbatim>\<open>User\<close> model (its file is not among the sources), taken as a parameter: the
  constructor \<^verbatim>\<open>new User(args)\<close> and the methods \<^verbatim>\<open>user.updateEmail(email)\<close> and
  \<^verbatim>\<open>user.authenticate(password)\<close>.
\<close>

record user_model =
  User_new :: "signup_args \<Rightarrow> user"
  updateEmail :: "user \<Rightarrow> string option \<Rightarrow> user"
  authenticate :: "user \<Rightarrow> string \<Rightarrow> bool"

subsection \<open>Store and clock primitives\<close>

text \<open>
  \<^verbatim>\<open>document.save()\<close> of a loaded document writes it back under its \<^verbatim>\<open>_id\<close>, the
  primary key of the collection.
\<close>

definition save_doc :: "user \<Rightarrow> user list \<Rightarrow> user list" where
  "save_doc u us = map (\<lambda>d. if uid d = uid u then u else d) us"

definition notify :: "js_error \<Rightarrow> world \<Rightarrow> world" where
  "notify err w = w\<lparr>bugsnag := bugsnag w @ [err]\<rparr>"

text \<open>A luxon \<^verbatim>\<open>DateTime\<close>: valid, with its instant, or invalid.\<close>

datatype DateTime = Invalid | Valid instant

text \<open>
  \<^verbatim>\<open>DateTime.fromISO(stored)\<close>, applied to what the resolvers pass: the value of an
  expiry field, a \<^verbatim>\<open>Date\<close> object or \<^verbatim>\<open>undefined\<close>. luxon matches its ISO 8601
  patterns against the string form of the argument. The string form of a \<^verbatim>\<open>Date\<close>
  (as in \<^verbatim>\<open>Mon Nov 02 2026 04:02:00 GMT+0000\<close>) matches none of them, and an absent
  argument is not matched at all: in both cases the result is an invalid \<^verbatim>\<open>DateTime\<close>.
\<close>

definition fromISO :: "js_date option \<Rightarrow> DateTime" where
  "fromISO stored = (case stored of None \<Rightarrow> Invalid | Some date \<Rightarrow> Invalid)"

text \<open>
  \<^verbatim>\<open>DateTime.now() > dt\<close> compares the numeric values; the numeric value of an invalid
  \<^verbatim>\<open>DateTime\<close> is NaN, and every comparison with NaN is false.
\<close>

definition now_after :: "instant \<Rightarrow> DateTime \<Rightarrow> bool" where
  "now_after now dt = (case dt of Invalid \<Rightarrow> False | Valid t \<Rightarrow> now > t)"

section \<open>The resolvers of src/users/resolvers.js\<close>

text \<open>\<^verbatim>\<open>getTokens(user, env)\<close>: the pair \<^verbatim>\<open>{ token, refreshToken }\<close> and the mutated user.\<close>

record token_pair =
  tp_token :: string
  tp_refreshToken :: string

definition getTokens :: "jsonwebtoken \<Rightarrow> env \<Rightarrow> instant \<Rightarrow> user \<Rightarrow> token_pair \<times> user" where
  "getTokens jwt e now u =
     (let info = \<lparr>userinfo_id = uid u, userinfo_roles = Some (roles u)\<rparr>;
          tok = jwt_sign jwt info (JWT_ACCESS_TOKEN_SECRET e) (Some ''15m'') now;
          rtok = jwt_sign jwt info (JWT_REFRESH_TOKEN_SECRET e) (Some ''14d'') now
      in (\<lparr>tp_token = tok, tp_refreshToken = rtok\<rparr>,
          u\<lparr>refreshToken := Some rtok, refreshTokenExpires := Some (PlusDays now 14)\<rparr>))"

text \<open>
  Every resolver below gets, besides its arguments and the world, the outcome of its
  \<^verbatim>\<open>save()\<close>: \<open>None\<close> when the promise is fulfilled, \<open>Some err\<close> when it is rejected
  with \<open>err\<close>. It returns what it returns or throws, and the world after the call.
\<close>

definition Mutation_refreshToken ::
  "jsonwebtoken \<Rightarrow> env \<Rightarrow> instant \<Rightarrow> js_error option \<Rightarrow> string \<Rightarrow> world
     \<Rightarrow> (error + token_pair option) \<times> world" where
  "Mutation_refreshToken jwt e now saved tok w =
     (case jwt_verify jwt tok (JWT_REFRESH_TOKEN_SECRET e) now of
        Throws err \<Rightarrow> (Inl (Thrown err), w)
      | Returns None \<Rightarrow> (Inl (UserInputError ''INVALID_REFRESH_TOKEN''), w)
      | Returns (Some decoded) \<Rightarrow>
          (case find (\<lambda>u. uid u = userinfo_id decoded) (users w) of
             None \<Rightarrow> (Inl (UserInputError ''INVALID_REFRESH_TOKEN''), w)
           | Some u \<Rightarrow>
               if refreshToken u \<noteq> Some tok \<or> now_after now (fromISO (refreshTokenExpires u))
               then (Inl (UserInputError ''INVALID_REFRESH_TOKEN''), w)
               else
                 (let (pair, u') = getTokens jwt e now u in
                  case saved of
                    None \<Rightarrow> (Inr (Some pair), w\<lparr>users := save_doc u' (users w)\<rparr>)
                  | Some err \<Rightarrow> (Inr None, notify err w))))"

definition Mutation_signIn ::
  "jsonwebtoken \<Rightarrow> user_model \<Rightarrow> env \<Rightarrow> instant \<Rightarrow> js_error option \<Rightarrow> string \<Rightarrow> string
     \<Rightarrow> world \<Rightarrow> (error + token_pair option) \<times> world" where
  "Mutation_signIn jwt m e now saved usernameOrEmail pw w =
     (case find (\<lambda>u. email u = Some usernameOrEmail \<or> username u = usernameOrEmail) (users w) of
        None \<Rightarrow> (Inl (UserInputError ''INVALID_CREDENTIALS''), w)
      | Some u \<Rightarrow>
          if \<not> authenticate m u pw then (Inl (UserInputError ''INVALID_CREDENTIALS''), w)
          else if emailConfirmed u = None
          then (Inl (UserInputError ''UNCONFIRMED_EMAIL_ADDRESS''), w)
          else
            (let (pair, u') = getTokens jwt e now u in
             case saved of
               None \<Rightarrow> (Inr (Some pair), w\<lparr>users := save_doc u' (users w)\<rparr>)
             | Some err \<Rightarrow> (Inr None, notify err w)))"

text \<open>
  \<^verbatim>\<open>signOut\<close> reads the id of the authenticated user from the context. When
  \<^verbatim>\<open>findOne\<close> gives \<^verbatim>\<open>null\<close>, the assignment to \<^verbatim>\<open>loggedUser.refreshToken\<close> throws a
  \<^verbatim>\<open>TypeError\<close>.
\<close>

definition Mutation_signOut ::
  "js_error option \<Rightarrow> string \<Rightarrow> world \<Rightarrow> (error + bool) \<times> world" where
  "Mutation_signOut saved user_id w =
     (case find (\<lambda>u. uid u = user_id) (users w) of
        None \<Rightarrow> (Inl (Thrown TypeError), w)
      | Some loggedUser \<Rightarrow>
          (let u' = loggedUser\<lparr>refreshToken := None, refreshTokenExpires := None\<rparr> in
           case saved of
             None \<Rightarrow> (Inr True, w\<lparr>users := save_doc u' (users w)\<rparr>)
           | Some err \<Rightarrow> (Inr False, notify err w)))"

definition Mutation_validateAccount ::
  "instant \<Rightarrow> js_error option \<Rightarrow> string \<Rightarrow> string \<Rightarrow> world \<Rightarrow> (error + bool) \<times> world" where
  "Mutation_validateAccount now saved uname tok w =
     (case find (\<lambda>u. username u = uname) (users w) of
        None \<Rightarrow> (Inl (UserInputError ''USER_NOT_FOUND''), w)
      | Some u \<Rightarrow>
          if emailConfirmationToken u \<noteq> Some tok
             \<or> now_after now (fromISO (emailConfirmationTokenExpires u))
          then (Inl (UserInputError ''USER_NOT_FOUND''), w)
          else
            (let u' = u\<lparr>emailConfirmationToken := None,
                        emailConfirmationTokenExpires := None,
                        emailConfirmed := Some now\<rparr> in
             case saved of
               None \<Rightarrow> (Inr True, w\<lparr>users := save_doc u' (users w)\<rparr>)
             | Some err \<Rightarrow> (Inr False, notify err w)))"

text \<open>
  \<^verbatim>\<open>signUp\<close> awaits four kinds of promises inside one \<^verbatim>\<open>try\<close> block: the save of
  the new user, \<^verbatim>\<open>smtpTransport.sendMail\<close>, \<^verbatim>\<open>Registration.find\<close> for the email
  address, and the save of every registration found. Their outcomes are the parameter
  \<open>signUp_io\<close> (\<open>None\<close>: fulfilled, \<open>Some err\<close>: rejected with \<open>err\<close>). The saves
  of the registrations run side by side; \<open>settled_at\<close> is the time at which the save
  of a registration settles.
\<close>

record signUp_io =
  user_saved :: "js_error option"
  mail_sent :: "js_error option"
  registrations_found :: "js_error option"
  registration_saved :: "registration \<Rightarrow> js_error option"
  settled_at :: "registration \<Rightarrow> nat"

text \<open>The \<^verbatim>\<open>catch\<close> block of \<^verbatim>\<open>signUp\<close>.\<close>

definition signUp_catch :: "js_error \<Rightarrow> world \<Rightarrow> (error + bool) \<times> world" where
  "signUp_catch err w =
     (if err_name err = ''MongoServerError'' then
        (if err_code err = Some 11000
         then (Inl (UserInputError ''EXISTING_EMAIL_ADDRESS''), w)
         else (Inr False, notify err w))
      else if err_name err = ''ValidationError'' then
        (case err_errors err of
           None \<Rightarrow> (Inl (Thrown TypeError), w)
         | Some keys \<Rightarrow>
             if ''email'' \<in> set keys
             then (Inl (UserInputError ''INVALID_EMAIL_ADDRESS''), w)
             else if ''password'' \<in> set keys
             then (Inl (UserInputError ''INVALID_PASSWORD''), w)
             else (Inr False, notify err w))
      else (Inr False, notify err w))"

text \<open>A template literal prints an absent value as \<^verbatim>\<open>undefined\<close>.\<close>

definition js_str :: "string option \<Rightarrow> string" where
  "js_str s = (case s of None \<Rightarrow> ''undefined'' | Some t \<Rightarrow> t)"

definition validationURL :: "user \<Rightarrow> string" where
  "validationURL u =
     ''https://www.tlca.eu/profiles/'' @ username u @ ''/'' @ js_str (emailConfirmationToken u)"

definition confirmation_mail :: "signup_args \<Rightarrow> user \<Rightarrow> mail" where
  "confirmation_mail args u =
     \<lparr>mail_to = args_email args, mail_from = ''sebastien@combefis.be'',
      mail_subject = ''[TLCA] Email address validation'',
      mail_validationURL = validationURL u\<rparr>"

text \<open>What the callback of \<^verbatim>\<open>registrations.map\<close> assigns before it saves.\<close>

definition transfer :: "user \<Rightarrow> registration \<Rightarrow> registration" where
  "transfer u r = r\<lparr>reg_email := None, reg_user := Some (uid u)\<rparr>"

text \<open>
  \<^verbatim>\<open>Promise.all\<close> over the saves is rejected with the reason of the save that is
  rejected first in time (of two that settle at the same time, the one started first).
  \<open>first_rejection saved at rs\<close> is that rejection with its time, \<open>None\<close> when every
  save is fulfilled.
\<close>

fun first_rejection ::
  "(registration \<Rightarrow> js_error option) \<Rightarrow> (registration \<Rightarrow> nat) \<Rightarrow> registration list
     \<Rightarrow> (nat \<times> js_error) option" where
  "first_rejection saved at [] = None"
| "first_rejection saved at (r # rs) =
     (case saved r of
        None \<Rightarrow> first_rejection saved at rs
      | Some err \<Rightarrow>
          (case first_rejection saved at rs of
             None \<Rightarrow> Some (at r, err)
           | Some (n, err') \<Rightarrow> if at r \<le> n then Some (at r, err) else Some (n, err')))"

text \<open>
  \<^verbatim>\<open>Promise.all\<close> starts every save before any of them settles, and nothing cancels a
  save once \<^verbatim>\<open>signUp\<close> has returned: the world after the call is the one in which
  every fulfilled save is written.
\<close>

definition Mutation_signUp ::
  "user_model \<Rightarrow> signUp_io \<Rightarrow> signup_args \<Rightarrow> world \<Rightarrow> (error + bool) \<times> world" where
  "Mutation_signUp m io args w =
     (let u = updateEmail m ((User_new m args)\<lparr>provider := Some ''local''\<rparr>) (args_email args) in
      case user_saved io of
        Some err \<Rightarrow> signUp_catch err w
      | None \<Rightarrow>
          (let w1 = w\<lparr>users := users w @ [u]\<rparr> in
           case mail_sent io of
             Some err \<Rightarrow> signUp_catch err w1
           | None \<Rightarrow>
               (let w2 = w1\<lparr>outbox := outbox w1 @ [confirmation_mail args u]\<rparr> in
                case registrations_found io of
                  Some err \<Rightarrow> signUp_catch err w2
                | None \<Rightarrow>
                    (let found = filter (\<lambda>r. reg_email r = args_email args) (registrations w2);
                         w3 = w2\<lparr>registrations :=
                                 map (\<lambda>r. if reg_email r = args_email args
                                              \<and> registration_saved io (transfer u r) = None
                                           then transfer u r else r)
                                     (registrations w2)\<rparr>
                     in case first_rejection (\<lambda>r. registration_saved io (transfer u r))
                               (settled_at io) found of
                          None \<Rightarrow> (Inr True, w3)
                        | Some (n, err) \<Rightarrow> signUp_catch err w3))))"

section \<open>The resolvers of src/data/resolvers.js\<close>

text \<open>\<^verbatim>\<open>!x\<close> for an optional string: absent or empty.\<close>

definition falsy :: "string option \<Rightarrow> bool" where
  "falsy s = (case s of None \<Rightarrow> True | Some t \<Rightarrow> t = [])"

text \<open>
  \<^verbatim>\<open>signIn\<close> of src/data/resolvers.js returns the object \<^verbatim>\<open>{ token }\<close>, modelled by
  its one field. The token is \<^verbatim>\<open>jwt.sign({ id: 'CouCou' }, process.env.JWT_SECRET)\<close>: no
  options, a payload without roles.
\<close>

definition data_Mutation_signIn ::
  "jsonwebtoken \<Rightarrow> user_model \<Rightarrow> env \<Rightarrow> instant \<Rightarrow> string option \<Rightarrow> string option \<Rightarrow> world
     \<Rightarrow> error + string" where
  "data_Mutation_signIn jwt m e now email_arg password_arg w =
     (case (email_arg, password_arg) of
        (Some em, Some pw) \<Rightarrow>
          if em = [] \<or> pw = [] then Inl (UserInputError ''MISSING_FIELDS'')
          else
            (case find (\<lambda>u. email u = Some em) (users w) of
               None \<Rightarrow> Inl (UserInputError ''INVALID_CREDENTIALS'')
             | Some u \<Rightarrow>
                 if authenticate m u pw
                 then Inr (jwt_sign jwt \<lparr>userinfo_id = ''CouCou'', userinfo_roles = None\<rparr>
                             (JWT_SECRET e) None now)
                 else Inl (UserInputError ''INVALID_CREDENTIALS''))
      | _ \<Rightarrow> Inl (UserInputError ''MISSING_FIELDS''))"

text \<open>
  The \<^verbatim>\<open>catch\<close> block of the older \<^verbatim>\<open>signUp\<close>: the case \<^verbatim>\<open>'MongoServerError'\<close> has no
  \<^verbatim>\<open>break\<close> and falls through into the case \<^verbatim>\<open>'ValidationError'\<close>.
\<close>

definition data_signUp_catch :: "js_error \<Rightarrow> world \<Rightarrow> (error + bool) \<times> world" where
  "data_signUp_catch err w =
     (if err_name err = ''MongoServerError'' \<and> err_code err = Some 11000
      then (Inl (UserInputError ''EXISTING_EMAIL_ADDRESS''), w)
      else if err_name err = ''MongoServerError'' \<or> err_name err = ''ValidationError'' then
        (case err_errors err of
           None \<Rightarrow> (Inl (Thrown TypeError), w)
         | Some keys \<Rightarrow>
             if ''email'' \<in> set keys
             then (Inl (UserInputError ''INVALID_EMAIL_ADDRESS''), w)
             else (Inr False, w))
      else (Inr False, w))"

definition data_Mutation_signUp ::
  "user_model \<Rightarrow> js_error option \<Rightarrow> signup_args \<Rightarrow> world \<Rightarrow> (error + bool) \<times> world" where
  "data_Mutation_signUp m saved args w =
     (if falsy (args_firstName args) \<or> falsy (args_lastName args)
         \<or> falsy (args_email args) \<or> falsy (args_password args)
      then (Inl (UserInputError ''MISSING_FIELDS''), w)
      else
        (let u0 = User_new m args;
             u1 = u0\<lparr>displayName := Some (js_str (firstName u0) @ '' '' @ js_str (lastName u0))\<rparr>;
             u = updateEmail m (u1\<lparr>provider := Some ''local''\<rparr>) (args_email args)
         in case saved of
              None \<Rightarrow> (Inr True, w\<lparr>users := users w @ [u]\<rparr>)
            | Some err \<Rightarrow> data_signUp_catch err w))"

section \<open>A small instance\<close>

text \<open>
  Concrete collaborators and a concrete store, on which the resolvers are run below.
  The instance of jsonwebtoken writes the secret, the subject and the second of issue
  into the token. Its \<open>verify\<close> knows the refresh token issued to the user \<open>u1\<close> in
  second 0: it returns that token's payload until the fourteen days are over, throws
  \<^verbatim>\<open>TokenExpiredError\<close> afterwards, and throws \<^verbatim>\<open>JsonWebTokenError\<close> for every other
  string.
\<close>

definition JsonWebTokenError :: js_error where
  "JsonWebTokenError = \<lparr>err_name = ''JsonWebTokenError'', err_code = None, err_errors = None\<rparr>"

definition TokenExpiredError :: js_error where
  "TokenExpiredError = \<lparr>err_name = ''TokenExpiredError'', err_code = None, err_errors = None\<rparr>"

definition demo_sign :: "userinfo \<Rightarrow> string \<Rightarrow> string option \<Rightarrow> instant \<Rightarrow> string" where
  "demo_sign info secret expiresIn now =
     secret @ ''.'' @ userinfo_id info @ ''.'' @ replicate (nat (now div 1000)) CHR ''s''"

definition demo_verify :: "string \<Rightarrow> string \<Rightarrow> instant \<Rightarrow> verified" where
  "demo_verify tok secret now =
     (if tok = ''refresh-secret.u1.'' \<and> secret = ''refresh-secret'' then
        (if now div 1000 \<ge> 1209600 then Throws TokenExpiredError
         else Returns (Some \<lparr>userinfo_id = ''u1'', userinfo_roles = Some [''learner'']\<rparr>))
      else Throws JsonWebTokenError)"

definition demo_jwt :: jsonwebtoken where
  "demo_jwt = \<lparr>jwt_sign = demo_sign, jwt_verify = demo_verify\<rparr>"

definition demo_env :: env where
  "demo_env = \<lparr>JWT_ACCESS_TOKEN_SECRET = ''access-secret'',
               JWT_REFRESH_TOKEN_SECRET = ''refresh-secret'', JWT_SECRET = ''secret''\<rparr>"

definition alice :: user where
  "alice = \<lparr>uid = ''u1'', email = Some ''alice@example.org'', username = ''alice'',
            firstName = Some ''Alice'', lastName = Some ''A'', displayName = None,
            password = ''pepper.wonderland'', salt = ''pepper.'', roles = [''learner''],
            provider = Some ''local'', emailConfirmed = Some 0,
            emailConfirmationToken = None, emailConfirmationTokenExpires = None,
            refreshToken = Some ''refresh-secret.u1.'',
            refreshTokenExpires = Some (PlusDays 0 14)\<rparr>"

definition bob :: user where
  "bob = \<lparr>uid = ''u2'', email = Some ''bob@example.org'', username = ''bob'',
          firstName = Some ''Bob'', lastName = Some ''B'', displayName = None,
          password = ''salt.builder'', salt = ''salt.'', roles = [''teacher''],
          provider = Some ''local'', emailConfirmed = None,
          emailConfirmationToken = Some ''c0ffee'',
          emailConfirmationTokenExpires = Some (Date 86400000),
          refreshToken = None, refreshTokenExpires = None\<rparr>"

text \<open>The document the constructor builds from sign-up arguments without a first name.\<close>

definition carol :: user where
  "carol = \<lparr>uid = ''u3'', email = None, username = ''carol'',
            firstName = None, lastName = Some ''C'', displayName = None,
            password = ''Secret123'', salt = ''nacl.'', roles = [],
            provider = None, emailConfirmed = None,
            emailConfirmationToken = None, emailConfirmationTokenExpires = None,
            refreshToken = None, refreshTokenExpires = None\<rparr>"

definition demo_updateEmail :: "user \<Rightarrow> string option \<Rightarrow> user" where
  "demo_updateEmail u em =
     u\<lparr>email := em, emailConfirmationToken := Some ''decaf'',
       emailConfirmationTokenExpires := Some (Date 86400000)\<rparr>"

definition demo_authenticate :: "user \<Rightarrow> string \<Rightarrow> bool" where
  "demo_authenticate u pw = (password u = salt u @ pw)"

definition demo_User_new :: "signup_args \<Rightarrow> user" where
  "demo_User_new args = carol"

definition demo_model :: user_model where
  "demo_model = \<lparr>User_new = demo_User_new, updateEmail = demo_updateEmail,
                 authenticate = demo_authenticate\<rparr>"

definition invitation :: registration where
  "invitation = \<lparr>reg_id = ''r1'', reg_email = Some ''carol@example.org'', reg_user = None\<rparr>"

definition demo_world :: world where
  "demo_world = \<lparr>users = [alice, bob], registrations = [invitation], outbox = [], bugsnag = []\<rparr>"

text \<open>Sign-up arguments without \<^verbatim>\<open>firstName\<close>.\<close>

definition carol_args :: signup_args where
  "carol_args = \<lparr>args_firstName = None, args_lastName = Some ''C'',
                 args_email = Some ''carol@example.org'', args_password = Some ''Secret123''\<rparr>"

definition smtp_error :: js_error where
  "smtp_error = \<lparr>err_name = ''Error'', err_code = None, err_errors = None\<rparr>"

definition disk_error :: js_error where
  "disk_error = \<lparr>err_name = ''MongoNetworkError'', err_code = None, err_errors = None\<rparr>"

definition firstName_required :: js_error where
  "firstName_required =
     \<lparr>err_name = ''ValidationError'', err_code = None, err_errors = Some [''firstName'']\<rparr>"

definition no_failure :: "registration \<Rightarrow> js_error option" where
  "no_failure r = None"

definition every_failure :: "registration \<Rightarrow> js_error option" where
  "every_failure r = Some disk_error"

definition at_once :: "registration \<Rightarrow> nat" where
  "at_once r = 0"

text \<open>The user is saved and the SMTP transport rejects the message.\<close>

definition mail_fails :: signUp_io where
  "mail_fails = \<lparr>user_saved = None, mail_sent = Some smtp_error, registrations_found = None,
                 registration_saved = no_failure, settled_at = at_once\<rparr>"

text \<open>The store rejects the new user: \<^verbatim>\<open>firstName\<close> is required.\<close>

definition save_fails :: signUp_io where
  "save_fails = \<lparr>user_saved = Some firstName_required, mail_sent = None,
                 registrations_found = None, registration_saved = no_failure,
                 settled_at = at_once\<rparr>"

text \<open>Every promise of \<^verbatim>\<open>signUp\<close> is fulfilled.\<close>

definition all_fine :: signUp_io where
  "all_fine = \<lparr>user_saved = None, mail_sent = None, registrations_found = None,
               registration_saved = no_failure, settled_at = at_once\<rparr>"

text \<open>The user is saved, the message is sent, and \<^verbatim>\<open>Registration.find\<close> is rejected.\<close>

definition lookup_fails :: signUp_io where
  "lookup_fails = \<lparr>user_saved = None, mail_sent = None, registrations_found = Some disk_error,
                   registration_saved = no_failure, settled_at = at_once\<rparr>"

text \<open>Everything is fulfilled but the saves of the registrations.\<close>

definition transfer_fails :: signUp_io where
  "transfer_fails = \<lparr>user_saved = None, mail_sent = None, registrations_found = None,
                     registration_saved = every_failure, settled_at = at_once\<rparr>"

text \<open>The store after alice has signed in at instant 5000.\<close>

definition alice_signed_in :: user where
  "alice_signed_in = alice\<lparr>refreshToken := Some ''refresh-secret.u1.sssss'',
                           refreshTokenExpires := Some (PlusDays 5000 14)\<rparr>"

definition signed_in_world :: world where
  "signed_in_world = demo_world\<lparr>users := [alice_signed_in, bob]\<rparr>"

text \<open>The store after alice has signed out.\<close>

definition alice_signed_out :: user where
  "alice_signed_out = alice\<lparr>refreshToken := None, refreshTokenExpires := None\<rparr>"

definition signed_out_world :: world where
  "signed_out_world = demo_world\<lparr>users := [alice_signed_out, bob]\<rparr>"

text \<open>The store after bob has confirmed his address at instant 1000.\<close>

definition bob_confirmed :: user where
  "bob_confirmed = bob\<lparr>emailConfirmationToken := None, emailConfirmationTokenExpires := None,
                       emailConfirmed := Some 1000\<rparr>"

definition confirmed_world :: world where
  "confirmed_world = demo_world\<lparr>users := [alice, bob_confirmed]\<rparr>"

text \<open>The document that \<open>signUp\<close> saves for \<open>carol_args\<close>.\<close>

definition carol_new :: user where
  "carol_new = carol\<lparr>provider := Some ''local'', email := Some ''carol@example.org'',
                     emailConfirmationToken := Some ''decaf'',
                     emailConfirmationTokenExpires := Some (Date 86400000)\<rparr>"



text \<open>The store after bob has confirmed his address one millisecond after the expiry.\<close>

definition bob_confirmed_late :: user where
  "bob_confirmed_late = bob\<lparr>emailConfirmationToken := None,
                            emailConfirmationTokenExpires := None,
                            emailConfirmed := Some 86400001\<rparr>"

definition late_world :: world where
  "late_world = demo_world\<lparr>users := [alice, bob_confirmed_late]\<rparr>"

section \<open>Facts about the store and the token issuer\<close>

lemma find_save_doc:
  "find P us = Some u \<Longrightarrow> uid u' = uid u \<Longrightarrow> P u' \<Longrightarrow> find P (save_doc u' us) = Some u'"
  by (induction us) (auto simp: save_doc_def split: if_splits)


lemma find_Some_member: "find P us = Some u \<Longrightarrow> u \<in> set us \<and> P u"
  by (induction us) (auto split: if_splits)


lemma save_doc_twice: "save_doc u (save_doc u us) = save_doc u us"
  by (induction us) (auto simp: save_doc_def)

lemma first_rejection_none:
  "first_rejection saved at rs = None \<longleftrightarrow> (\<forall>r\<in>set rs. saved r = None)"
  by (induction rs) (auto split: option.splits if_splits)

lemma first_rejection_some:
  "first_rejection saved at rs = Some (n, err) \<Longrightarrow> \<exists>r\<in>set rs. saved r = Some err"
  by (induction rs arbitrary: n err) (auto split: option.splits if_splits)

text \<open>
  What \<open>getTokens\<close> issues for a user: both tokens carry the user's id and roles, the
  access token is signed with the access secret for \<^verbatim>\<open>15m\<close>, the refresh token with
  the refresh secret for \<^verbatim>\<open>14d\<close>, and the user gets the refresh token and, as expiry,
  the date fourteen days after \<open>now\<close>.
\<close>

lemma getTokens_issue:
  "getTokens jwt e now u =
     (\<lparr>tp_token = jwt_sign jwt \<lparr>userinfo_id = uid u, userinfo_roles = Some (roles u)\<rparr>
                     (JWT_ACCESS_TOKEN_SECRET e) (Some ''15m'') now,
       tp_refreshToken = jwt_sign jwt \<lparr>userinfo_id = uid u, userinfo_roles = Some (roles u)\<rparr>
                     (JWT_REFRESH_TOKEN_SECRET e) (Some ''14d'') now\<rparr>,
      u\<lparr>refreshToken := Some (jwt_sign jwt \<lparr>userinfo_id = uid u, userinfo_roles = Some (roles u)\<rparr>
                     (JWT_REFRESH_TOKEN_SECRET e) (Some ''14d'') now),
        refreshTokenExpires := Some (PlusDays now 14)\<rparr>)"
  by (simp add: getTokens_def Let_def)



section \<open>Case analysis of the resolvers\<close>

text \<open>
  The resolvers test an expiry with \<^verbatim>\<open>DateTime.now() > DateTime.fromISO(stored)\<close>. The
  stored value is a \<^verbatim>\<open>Date\<close> or absent, so the right side is an invalid
  \<^verbatim>\<open>DateTime\<close> and the test is false at every instant.
\<close>

lemma expiry_test_never_holds: "\<not> now_after now (fromISO stored)"
  by (simp add: fromISO_def now_after_def split: option.splits)

lemma refreshToken_throws:
  "jwt_verify jwt tok (JWT_REFRESH_TOKEN_SECRET e) now = Throws err \<Longrightarrow>
   Mutation_refreshToken jwt e now saved tok w = (Inl (Thrown err), w)"
  by (simp add: Mutation_refreshToken_def)

lemma refreshToken_mismatch:
  "jwt_verify jwt tok (JWT_REFRESH_TOKEN_SECRET e) now = Returns (Some c) \<Longrightarrow>
   find (\<lambda>u. uid u = userinfo_id c) (users w) = Some u \<Longrightarrow>
   refreshToken u \<noteq> Some tok \<Longrightarrow>
   Mutation_refreshToken jwt e now saved tok w =
     (Inl (UserInputError ''INVALID_REFRESH_TOKEN''), w)"
  by (simp add: Mutation_refreshToken_def)

text \<open>
  When \<^verbatim>\<open>jwt.verify\<close> returns, \<open>refreshToken\<close> throws \<^verbatim>\<open>INVALID_REFRESH_TOKEN\<close> for
  a falsy payload, for an id without a user and for a user whose stored token is another
  one; otherwise it issues a pair and saves the user. The stored expiry plays no part.
\<close>

lemma refreshToken_returns:
  assumes "jwt_verify jwt tok (JWT_REFRESH_TOKEN_SECRET e) now = Returns r"
  shows "Mutation_refreshToken jwt e now saved tok w =
     (case r of
        None \<Rightarrow> (Inl (UserInputError ''INVALID_REFRESH_TOKEN''), w)
      | Some c \<Rightarrow>
          (case find (\<lambda>u. uid u = userinfo_id c) (users w) of
             None \<Rightarrow> (Inl (UserInputError ''INVALID_REFRESH_TOKEN''), w)
           | Some u \<Rightarrow>
               if refreshToken u \<noteq> Some tok
               then (Inl (UserInputError ''INVALID_REFRESH_TOKEN''), w)
               else
                 (case saved of
                    None \<Rightarrow> (Inr (Some (fst (getTokens jwt e now u))),
                             w\<lparr>users := save_doc (snd (getTokens jwt e now u)) (users w)\<rparr>)
                  | Some err \<Rightarrow> (Inr None, notify err w))))"
  using assms
  by (simp add: Mutation_refreshToken_def expiry_test_never_holds
           split: option.splits prod.splits)


lemma signIn_cases:
  "Mutation_signIn jwt m e now saved x pw w =
     (case find (\<lambda>u. email u = Some x \<or> username u = x) (users w) of
        None \<Rightarrow> (Inl (UserInputError ''INVALID_CREDENTIALS''), w)
      | Some u \<Rightarrow>
          if \<not> authenticate m u pw then (Inl (UserInputError ''INVALID_CREDENTIALS''), w)
          else if emailConfirmed u = None
          then (Inl (UserInputError ''UNCONFIRMED_EMAIL_ADDRESS''), w)
          else
            (case saved of
               None \<Rightarrow> (Inr (Some (fst (getTokens jwt e now u))),
                        w\<lparr>users := save_doc (snd (getTokens jwt e now u)) (users w)\<rparr>)
             | Some err \<Rightarrow> (Inr None, notify err w)))"
  by (simp add: Mutation_signIn_def split: option.splits prod.splits)


lemma validateAccount_cases:
  "Mutation_validateAccount now saved uname tok w =
     (case find (\<lambda>u. username u = uname) (users w) of
        None \<Rightarrow> (Inl (UserInputError ''USER_NOT_FOUND''), w)
      | Some u \<Rightarrow>
          if emailConfirmationToken u \<noteq> Some tok
          then (Inl (UserInputError ''USER_NOT_FOUND''), w)
          else
            (case saved of
               None \<Rightarrow> (Inr True,
                        w\<lparr>users := save_doc (u\<lparr>emailConfirmationToken := None,
                                                emailConfirmationTokenExpires := None,
                                                emailConfirmed := Some now\<rparr>) (users w)\<rparr>)
             | Some err \<Rightarrow> (Inr False, notify err w)))"
  by (simp add: Mutation_validateAccount_def expiry_test_never_holds Let_def
           split: option.splits)

lemma signOut_cases:
  "Mutation_signOut saved i w =
     (case find (\<lambda>u. uid u = i) (users w) of
        None \<Rightarrow> (Inl (Thrown TypeError), w)
      | Some u \<Rightarrow>
          (case saved of
             None \<Rightarrow> (Inr True,
                      w\<lparr>users := save_doc (u\<lparr>refreshToken := None,
                                              refreshTokenExpires := None\<rparr>) (users w)\<rparr>)
           | Some err \<Rightarrow> (Inr False, notify err w)))"
  by (simp add: Mutation_signOut_def Let_def split: option.splits)

lemma signUp_catch_other:
  "err_name err \<noteq> ''MongoServerError'' \<Longrightarrow> err_name err \<noteq> ''ValidationError'' \<Longrightarrow>
   signUp_catch err w = (Inr False, notify err w)"
  by (simp add: signUp_catch_def)

lemma signUp_catch_not_missing:
  "fst (signUp_catch err w) \<noteq> Inl (UserInputError ''MISSING_FIELDS'')"
  by (simp add: signUp_catch_def split: option.splits)

lemma signUp_catch_not_true: "fst (signUp_catch err w) \<noteq> Inr True"
  by (simp add: signUp_catch_def split: option.splits)

lemma signUp_catch_users: "users (snd (signUp_catch err w)) = users w"
  by (simp add: signUp_catch_def notify_def split: option.splits)

text \<open>
  The older \<open>signUp\<close> of src/data/resolvers.js does check its arguments: it throws
  \<^verbatim>\<open>MISSING_FIELDS\<close> as soon as one of the four is absent or empty.
\<close>

lemma falsy_absent: "falsy None"
  by (simp add: falsy_def)

lemma data_signUp_missing_fields:
  assumes "falsy (args_firstName args) \<or> falsy (args_lastName args)
           \<or> falsy (args_email args) \<or> falsy (args_password args)"
  shows "data_Mutation_signUp m saved args w = (Inl (UserInputError ''MISSING_FIELDS''), w)"
  using assms by (auto simp: data_Mutation_signUp_def)

lemmas demo_defs =
  demo_jwt_def demo_env_def demo_sign_def demo_verify_def demo_world_def alice_def bob_def
  carol_def demo_model_def demo_authenticate_def demo_User_new_def demo_updateEmail_def
  JsonWebTokenError_def TokenExpiredError_def invitation_def carol_args_def smtp_error_def
  disk_error_def firstName_required_def no_failure_def mail_fails_def save_fails_def
  all_fine_def lookup_fails_def transfer_fails_def every_failure_def at_once_def

lemma signUp_catch_fst: "fst (signUp_catch err w) = fst (signUp_catch err w')"
  by (simp add: signUp_catch_def split: option.splits)


text \<open>
  What \<open>validateAccount\<close> does apart from the expiry: it returns true only for a stored
  user with the supplied username and token; it then clears the token and the expiry and
  sets \<open>emailConfirmed\<close> to the current instant, so that a further call with the same
  token throws \<^verbatim>\<open>USER_NOT_FOUND\<close>; and it throws \<^verbatim>\<open>USER_NOT_FOUND\<close> when no stored
  user has that username and token.
\<close>

lemma validateAccount_clears_token:
  "(Mutation_validateAccount now saved uname tok w = (Inr True, w') \<longrightarrow>
      (\<exists>u\<in>set (users w). username u = uname \<and> emailConfirmationToken u = Some tok)
      \<and> (\<exists>u'. find (\<lambda>v. username v = uname) (users w') = Some u'
            \<and> emailConfirmationToken u' = None \<and> emailConfirmationTokenExpires u' = None
            \<and> emailConfirmed u' = Some now)
      \<and> Mutation_validateAccount now2 saved2 uname tok w'
            = (Inl (UserInputError ''USER_NOT_FOUND''), w'))
   \<and> (\<not> (\<exists>u\<in>set (users w). username u = uname \<and> emailConfirmationToken u = Some tok) \<longrightarrow>
        Mutation_validateAccount now saved uname tok w
          = (Inl (UserInputError ''USER_NOT_FOUND''), w))"
proof (intro conjI impI)
  assume ok: "Mutation_validateAccount now saved uname tok w = (Inr True, w')"
  then obtain u where f: "find (\<lambda>v. username v = uname) (users w) = Some u"
    and t: "emailConfirmationToken u = Some tok"
    and w': "w' = w\<lparr>users := save_doc (u\<lparr>emailConfirmationToken := None,
                       emailConfirmationTokenExpires := None,
                       emailConfirmed := Some now\<rparr>) (users w)\<rparr>"
    by (auto simp: validateAccount_cases split: option.splits if_splits)
  let ?u' = "u\<lparr>emailConfirmationToken := None, emailConfirmationTokenExpires := None,
               emailConfirmed := Some now\<rparr>"
  from find_Some_member [OF f] have "u \<in> set (users w)" "username u = uname"
    by simp_all
  with t show "\<exists>u\<in>set (users w). username u = uname \<and> emailConfirmationToken u = Some tok"
    by blast
  have stored: "find (\<lambda>v. username v = uname) (users w') = Some ?u'"
    using find_save_doc [OF f, of ?u'] \<open>username u = uname\<close> by (simp add: w')
  then show "\<exists>u'. find (\<lambda>v. username v = uname) (users w') = Some u'
            \<and> emailConfirmationToken u' = None \<and> emailConfirmationTokenExpires u' = None
            \<and> emailConfirmed u' = Some now"
    by simp
  from stored show "Mutation_validateAccount now2 saved2 uname tok w'
            = (Inl (UserInputError ''USER_NOT_FOUND''), w')"
    by (simp add: validateAccount_cases)
next
  assume none: "\<not> (\<exists>u\<in>set (users w). username u = uname
                     \<and> emailConfirmationToken u = Some tok)"
  show "Mutation_validateAccount now saved uname tok w
          = (Inl (UserInputError ''USER_NOT_FOUND''), w)"
  proof (cases "find (\<lambda>v. username v = uname) (users w)")
    case None
    then show ?thesis by (simp add: validateAccount_cases)
  next
    case (Some u)
    from find_Some_member [OF Some] have "u \<in> set (users w)" "username u = uname"
      by simp_all
    with none have "emailConfirmationToken u \<noteq> Some tok"
      by blast
    with Some show ?thesis by (simp add: validateAccount_cases)
  qed
qed

text \<open>
  What \<open>signOut\<close> does for a user of the store: with a working \<^verbatim>\<open>save()\<close> it returns
  true and stores the user without \<open>refreshToken\<close> and \<open>refreshTokenExpires\<close>; a second
  \<open>signOut\<close> returns true and leaves that store as it is; \<open>signOut\<close> never throws a
  \<^verbatim>\<open>UserInputError\<close>; and afterwards a \<open>refreshToken\<close> call with a token that
  \<^verbatim>\<open>jwt.verify\<close> decodes to the user's id throws \<^verbatim>\<open>INVALID_REFRESH_TOKEN\<close>.
\<close>

lemma signOut_clears_refresh_state:
  assumes found: "find (\<lambda>v. uid v = i) (users w) = Some u"
    and out: "w' = snd (Mutation_signOut None i w)"
  shows "Mutation_signOut None i w = (Inr True, w')
       \<and> find (\<lambda>v. uid v = i) (users w')
           = Some (u\<lparr>refreshToken := None, refreshTokenExpires := None\<rparr>)
       \<and> Mutation_signOut None i w' = (Inr True, w')
       \<and> fst (Mutation_signOut saved i w) \<noteq> Inl (UserInputError code)
       \<and> (jwt_verify jwt t (JWT_REFRESH_TOKEN_SECRET e) now = Returns (Some c)
            \<and> userinfo_id c = i \<longrightarrow>
          Mutation_refreshToken jwt e now saved' t w'
            = (Inl (UserInputError ''INVALID_REFRESH_TOKEN''), w'))"
proof -
  let ?u' = "u\<lparr>refreshToken := None, refreshTokenExpires := None\<rparr>"
  from find_Some_member [OF found] have i: "uid u = i" by simp
  have w': "w' = w\<lparr>users := save_doc ?u' (users w)\<rparr>"
    by (simp add: out signOut_cases found)
  have first: "Mutation_signOut None i w = (Inr True, w')"
    by (simp add: w' signOut_cases found)
  have stored: "find (\<lambda>v. uid v = i) (users w') = Some ?u'"
    using find_save_doc [OF found, of ?u'] by (simp add: w' i)
  have second: "Mutation_signOut None i w' = (Inr True, w')"
    by (simp add: signOut_cases stored) (simp add: w' save_doc_twice)
  have unnamed: "fst (Mutation_signOut saved i w) \<noteq> Inl (UserInputError code)"
    by (simp add: signOut_cases split: option.splits)
  have "Mutation_refreshToken jwt e now saved' t w'
          = (Inl (UserInputError ''INVALID_REFRESH_TOKEN''), w')"
    if "jwt_verify jwt t (JWT_REFRESH_TOKEN_SECRET e) now = Returns (Some c)"
      and "userinfo_id c = i"
    using that stored
    by (intro refreshToken_mismatch [where c = c and u = ?u']) simp_all
  with first stored second unnamed show ?thesis by simp
qed
section \<open>Claims\<close>

text \<open>
  C1. The claim: \<open>refreshToken\<close> fails with \<^verbatim>\<open>INVALID_REFRESH_TOKEN\<close> when the token
  does not verify against the refresh secret. The code calls the synchronous
  \<^verbatim>\<open>jwt.verify\<close>, which throws for such a token; that exception leaves the resolver
  before the guard \<^verbatim>\<open>if (!decoded)\<close> is reached. So for every token that
  \<^verbatim>\<open>jwt.verify\<close> rejects, the resolver fails with the library's own error, not with
  \<^verbatim>\<open>INVALID_REFRESH_TOKEN\<close>, and the store is untouched.
\<close>

theorem refreshToken_rejected_token_throws:
  assumes "jwt_verify jwt tok (JWT_REFRESH_TOKEN_SECRET e) now = Throws err"
  shows "Mutation_refreshToken jwt e now saved tok w = (Inl (Thrown err), w)
         \<and> fst (Mutation_refreshToken jwt e now saved tok w)
             \<noteq> Inl (UserInputError ''INVALID_REFRESH_TOKEN'')"
  using assms by (simp add: Mutation_refreshToken_def)

theorem refreshToken_rejected_token_throws_witness:
  "jwt_verify demo_jwt ''not-a-jwt'' (JWT_REFRESH_TOKEN_SECRET demo_env) 5000
     = Throws JsonWebTokenError
   \<and> Mutation_refreshToken demo_jwt demo_env 5000 None ''not-a-jwt'' demo_world
     = (Inl (Thrown JsonWebTokenError), demo_world)
   \<and> fst (Mutation_refreshToken demo_jwt demo_env 5000 None ''not-a-jwt'' demo_world)
     \<noteq> Inl (UserInputError ''INVALID_REFRESH_TOKEN'')"
proof -
  have h: "jwt_verify demo_jwt ''not-a-jwt'' (JWT_REFRESH_TOKEN_SECRET demo_env) 5000
             = Throws JsonWebTokenError"
    by (simp add: demo_jwt_def demo_env_def demo_verify_def)
  from refreshToken_rejected_token_throws [OF h, of None demo_world] h
  show ?thesis by simp
qed




text \<open>
  C3. The claim: \<open>validateAccount\<close> succeeds only when the current time is not past
  \<open>emailConfirmationTokenExpires\<close>. The code has the test, \<^verbatim>\<open>DateTime.now() >
  DateTime.fromISO(user.emailConfirmationTokenExpires)\<close>, but hands the stored
  \<^verbatim>\<open>Date\<close> to the ISO parser, so the test never holds: for a stored user with the
  supplied username and token, \<open>validateAccount\<close> returns true and confirms the
  account also when the current instant is after the stored expiry. The other parts of
  the claim hold (lemma \<open>validateAccount_clears_token\<close>).
\<close>

theorem validateAccount_ignores_expiry:
  assumes "find (\<lambda>v. username v = uname) (users w) = Some u"
    and "emailConfirmationToken u = Some tok"
    and "emailConfirmationTokenExpires u = Some (Date expires)"
    and "now > expires"
  shows "Mutation_validateAccount now None uname tok w
           = (Inr True,
              w\<lparr>users := save_doc (u\<lparr>emailConfirmationToken := None,
                                      emailConfirmationTokenExpires := None,
                                      emailConfirmed := Some now\<rparr>) (users w)\<rparr>)"
  using assms by (simp add: validateAccount_cases)

theorem validateAccount_ignores_expiry_witness:
  "emailConfirmationTokenExpires bob = Some (Date 86400000)
   \<and> (86400001 :: instant) > 86400000
   \<and> Mutation_validateAccount 86400001 None ''bob'' ''c0ffee'' demo_world
       = (Inr True, late_world)"
proof -
  have h1: "find (\<lambda>v. username v = ''bob'') (users demo_world) = Some bob"
    by (simp add: demo_defs)
  have h2: "emailConfirmationToken bob = Some ''c0ffee''"
    by (simp add: bob_def)
  have h3: "emailConfirmationTokenExpires bob = Some (Date 86400000)"
    by (simp add: bob_def)
  have h4: "(86400001 :: instant) > 86400000"
    by simp
  have w: "demo_world\<lparr>users := save_doc (bob\<lparr>emailConfirmationToken := None,
                                             emailConfirmationTokenExpires := None,
                                             emailConfirmed := Some 86400001\<rparr>)
                                   (users demo_world)\<rparr> = late_world"
    by (simp add: save_doc_def late_world_def bob_confirmed_late_def demo_defs)
  from validateAccount_ignores_expiry [OF h1 h2 h3 h4] h3 h4 show ?thesis
    unfolding w by blast
qed

text \<open>
  C4. The claim, that \<open>signUp\<close> returns true once the user is persisted even when the
  confirmation email cannot be sent, fails: \<^verbatim>\<open>sendMail\<close> is awaited inside the same
  \<^verbatim>\<open>try\<close> block as the save, so its rejection reaches the \<^verbatim>\<open>catch\<close> block, which
  reports it and lets \<open>signUp\<close> return false. Here the user is saved, the transport
  rejects the message, and \<open>signUp\<close> returns false with the new user in the store.
\<close>

theorem signUp_mail_failure_counterexample:
  "user_saved mail_fails = None
   \<and> mail_sent mail_fails = Some smtp_error
   \<and> Mutation_signUp demo_model mail_fails carol_args demo_world
       = (Inr False, demo_world\<lparr>users := [alice, bob, carol_new], bugsnag := [smtp_error]\<rparr>)"
  by (simp add: Mutation_signUp_def signUp_catch_def notify_def demo_defs carol_new_def)

text \<open>
  C4, as amended. Once the new user is persisted, \<open>signUp\<close> returns true exactly when
  the confirmation email is sent, the pending registrations are found and every
  transfer of a pending registration is saved. In every case the new user stays in the
  store. When the email, the lookup or a transfer fails, the error of one of the failed
  steps goes to the \<^verbatim>\<open>catch\<close> block of \<open>signUp\<close>: an error that is neither a
  \<^verbatim>\<open>MongoServerError\<close> nor a \<^verbatim>\<open>ValidationError\<close> is reported to the error tracker and
  \<open>signUp\<close> returns false.
\<close>

theorem signUp_after_persisting:
  assumes saved: "user_saved io = None"
  shows "(fst (Mutation_signUp m io args w) = Inr True \<longleftrightarrow>
            mail_sent io = None \<and> registrations_found io = None
            \<and> (\<forall>r\<in>set (registrations w). reg_email r = args_email args \<longrightarrow>
                 registration_saved io
                   (transfer (updateEmail m ((User_new m args)\<lparr>provider := Some ''local''\<rparr>)
                                (args_email args)) r) = None))
       \<and> users (snd (Mutation_signUp m io args w))
           = users w @ [updateEmail m ((User_new m args)\<lparr>provider := Some ''local''\<rparr>)
                          (args_email args)]
       \<and> (fst (Mutation_signUp m io args w) \<noteq> Inr True \<longrightarrow>
            (\<exists>err. (mail_sent io = Some err \<or> registrations_found io = Some err
                     \<or> (\<exists>r\<in>set (registrations w). reg_email r = args_email args
                          \<and> registration_saved io
                              (transfer (updateEmail m ((User_new m args)\<lparr>provider := Some ''local''\<rparr>)
                                           (args_email args)) r) = Some err))
                 \<and> fst (Mutation_signUp m io args w) = fst (signUp_catch err w)
                 \<and> (err_name err \<noteq> ''MongoServerError'' \<and> err_name err \<noteq> ''ValidationError''
                      \<longrightarrow> fst (Mutation_signUp m io args w) = Inr False
                          \<and> bugsnag (snd (Mutation_signUp m io args w)) = bugsnag w @ [err])))"
proof -
  let ?u = "updateEmail m ((User_new m args)\<lparr>provider := Some ''local''\<rparr>) (args_email args)"
  let ?w1 = "w\<lparr>users := users w @ [?u]\<rparr>"
  let ?w2 = "?w1\<lparr>outbox := outbox ?w1 @ [confirmation_mail args ?u]\<rparr>"
  let ?f = "\<lambda>r. registration_saved io (transfer ?u r)"
  let ?found = "filter (\<lambda>r. reg_email r = args_email args) (registrations w)"
  let ?R = "Mutation_signUp m io args w"
  have all_saved: "first_rejection ?f (settled_at io) ?found = None \<longleftrightarrow>
      (\<forall>r\<in>set (registrations w). reg_email r = args_email args \<longrightarrow> ?f r = None)"
    by (auto simp: first_rejection_none)
  have caught: "fst ?R = fst (signUp_catch err w) \<and> users (snd ?R) = users w @ [?u]
      \<and> fst ?R \<noteq> Inr True
      \<and> (err_name err \<noteq> ''MongoServerError'' \<and> err_name err \<noteq> ''ValidationError''
           \<longrightarrow> fst ?R = Inr False \<and> bugsnag (snd ?R) = bugsnag w @ [err])"
    if R: "?R = signUp_catch err v" and v: "users v = users w @ [?u]" "bugsnag v = bugsnag w"
    for err v
  proof (intro conjI impI)
    show "fst ?R = fst (signUp_catch err w)"
      unfolding R by (rule signUp_catch_fst)
    show "users (snd ?R) = users w @ [?u]"
      by (simp add: R signUp_catch_users v)
    show "fst ?R \<noteq> Inr True"
      by (simp add: R signUp_catch_not_true)
  next
    assume "err_name err \<noteq> ''MongoServerError'' \<and> err_name err \<noteq> ''ValidationError''"
    then have "signUp_catch err v = (Inr False, notify err v)"
      by (simp add: signUp_catch_other)
    then show "fst ?R = Inr False" and "bugsnag (snd ?R) = bugsnag w @ [err]"
      by (simp_all add: R notify_def v)
  qed
  show ?thesis
  proof (cases "mail_sent io")
    case (Some err)
    then have "?R = signUp_catch err ?w1"
      by (simp add: Mutation_signUp_def saved)
    from this have "fst ?R = fst (signUp_catch err w) \<and> users (snd ?R) = users w @ [?u]
      \<and> fst ?R \<noteq> Inr True
      \<and> (err_name err \<noteq> ''MongoServerError'' \<and> err_name err \<noteq> ''ValidationError''
           \<longrightarrow> fst ?R = Inr False \<and> bugsnag (snd ?R) = bugsnag w @ [err])"
      by (rule caught) simp_all
    with Some show ?thesis by auto
  next
    case mail: None
    show ?thesis
    proof (cases "registrations_found io")
      case (Some err)
      then have "?R = signUp_catch err ?w2"
        by (simp add: Mutation_signUp_def saved mail Let_def)
      from this have "fst ?R = fst (signUp_catch err w) \<and> users (snd ?R) = users w @ [?u]
        \<and> fst ?R \<noteq> Inr True
        \<and> (err_name err \<noteq> ''MongoServerError'' \<and> err_name err \<noteq> ''ValidationError''
             \<longrightarrow> fst ?R = Inr False \<and> bugsnag (snd ?R) = bugsnag w @ [err])"
        by (rule caught) simp_all
      with Some mail show ?thesis by auto
    next
      case lookup: None
      let ?w3 = "?w2\<lparr>registrations :=
                   map (\<lambda>r. if reg_email r = args_email args \<and> ?f r = None
                             then transfer ?u r else r) (registrations ?w2)\<rparr>"
      show ?thesis
      proof (cases "first_rejection ?f (settled_at io) ?found")
        case None
        then have R: "?R = (Inr True, ?w3)"
          by (simp add: Mutation_signUp_def saved mail lookup Let_def)
        from None all_saved have "\<forall>r\<in>set (registrations w). reg_email r = args_email args
            \<longrightarrow> ?f r = None"
          by simp
        with mail lookup show ?thesis by (simp add: R)
      next
        case (Some ne)
        obtain n err where ne: "ne = (n, err)" by (cases ne)
        from Some have R: "?R = signUp_catch err ?w3"
          by (simp add: Mutation_signUp_def saved mail lookup Let_def ne)
        from first_rejection_some [OF Some [unfolded ne]]
        have failing: "\<exists>r\<in>set (registrations w). reg_email r = args_email args
            \<and> ?f r = Some err"
          by auto
        then have not_all: "\<not> (\<forall>r\<in>set (registrations w). reg_email r = args_email args
            \<longrightarrow> ?f r = None)"
          by auto
        from R have "fst ?R = fst (signUp_catch err w) \<and> users (snd ?R) = users w @ [?u]
          \<and> fst ?R \<noteq> Inr True
          \<and> (err_name err \<noteq> ''MongoServerError'' \<and> err_name err \<noteq> ''ValidationError''
               \<longrightarrow> fst ?R = Inr False \<and> bugsnag (snd ?R) = bugsnag w @ [err])"
          by (rule caught) simp_all
        with failing not_all show ?thesis by blast
      qed
    qed
  qed
qed

theorem signUp_after_persisting_witness:
  "user_saved mail_fails = None
   \<and> fst (Mutation_signUp demo_model mail_fails carol_args demo_world) = Inr False
   \<and> users (snd (Mutation_signUp demo_model mail_fails carol_args demo_world))
       = [alice, bob, carol_new]
   \<and> user_saved all_fine = None
   \<and> fst (Mutation_signUp demo_model all_fine carol_args demo_world) = Inr True
   \<and> users (snd (Mutation_signUp demo_model all_fine carol_args demo_world))
       = [alice, bob, carol_new]
   \<and> user_saved lookup_fails = None
   \<and> fst (Mutation_signUp demo_model lookup_fails carol_args demo_world) \<noteq> Inr True
   \<and> user_saved transfer_fails = None
   \<and> fst (Mutation_signUp demo_model transfer_fails carol_args demo_world) \<noteq> Inr True"
proof -
  have s1: "user_saved mail_fails = None" and s2: "user_saved all_fine = None"
    and s3: "user_saved lookup_fails = None" and s4: "user_saved transfer_fails = None"
    by (simp_all add: mail_fails_def all_fine_def lookup_fails_def transfer_fails_def)
  have u: "updateEmail demo_model ((User_new demo_model carol_args)\<lparr>provider := Some ''local''\<rparr>)
             (args_email carol_args) = carol_new"
    by (simp add: demo_defs carol_new_def)
  have m1: "mail_sent mail_fails = Some smtp_error" and m2: "mail_sent all_fine = None"
    and f1: "registrations_found mail_fails = None" and f2: "registrations_found all_fine = None"
    and f3: "registrations_found lookup_fails = Some disk_error"
    by (simp_all add: mail_fails_def all_fine_def lookup_fails_def)
  have r1: "registration_saved mail_fails r = None" for r
    by (simp add: mail_fails_def no_failure_def)
  have r2: "\<forall>r\<in>set (registrations demo_world). reg_email r = args_email carol_args \<longrightarrow>
              registration_saved all_fine (transfer carol_new r) = None"
    by (simp add: all_fine_def no_failure_def)
  have r4: "invitation \<in> set (registrations demo_world)"
    "reg_email invitation = args_email carol_args"
    "registration_saved transfer_fails (transfer carol_new invitation) = Some disk_error"
    by (simp_all add: demo_defs)
  have c: "fst (signUp_catch smtp_error demo_world) = Inr False"
    by (simp add: signUp_catch_def smtp_error_def)
  have us: "users demo_world = [alice, bob]"
    by (simp add: demo_world_def)
  note a = signUp_after_persisting [OF s1, of demo_model carol_args demo_world, unfolded u]
  note b = signUp_after_persisting [OF s2, of demo_model carol_args demo_world, unfolded u]
  note l = signUp_after_persisting [OF s3, of demo_model carol_args demo_world, unfolded u]
  note t = signUp_after_persisting [OF s4, of demo_model carol_args demo_world, unfolded u]
  have a1: "fst (Mutation_signUp demo_model mail_fails carol_args demo_world) \<noteq> Inr True"
    using conjunct1 [OF a] m1 by simp
  have a2: "fst (Mutation_signUp demo_model mail_fails carol_args demo_world) = Inr False"
    using conjunct2 [OF conjunct2 [OF a]] a1 m1 f1 c r1 by auto
  have a3: "users (snd (Mutation_signUp demo_model mail_fails carol_args demo_world))
              = [alice, bob, carol_new]"
    using conjunct1 [OF conjunct2 [OF a]] by (simp add: us)
  have b1: "fst (Mutation_signUp demo_model all_fine carol_args demo_world) = Inr True"
    using conjunct1 [OF b] m2 f2 r2 by blast
  have b3: "users (snd (Mutation_signUp demo_model all_fine carol_args demo_world))
              = [alice, bob, carol_new]"
    using conjunct1 [OF conjunct2 [OF b]] by (simp add: us)
  have l1: "fst (Mutation_signUp demo_model lookup_fails carol_args demo_world) \<noteq> Inr True"
    using conjunct1 [OF l] f3 by simp
  have t1: "fst (Mutation_signUp demo_model transfer_fails carol_args demo_world) \<noteq> Inr True"
    using conjunct1 [OF t] r4 by force
  from s1 s2 s3 s4 a2 a3 b1 b3 l1 t1 show ?thesis by blast
qed

text \<open>
  C5. \<open>getTokens\<close> issues what the claim says (lemma \<open>getTokens_issue\<close>). The
  \<open>signIn\<close> of src/data/resolvers.js does not: whoever signs in, the one token it
  returns is \<^verbatim>\<open>jwt.sign({ id: 'CouCou' }, process.env.JWT_SECRET)\<close>, with a fixed id, no
  roles, no lifetime, a third secret, and no refresh token beside it.
\<close>

theorem data_signIn_token_ignores_user:
  assumes "data_Mutation_signIn jwt m e now email_arg password_arg w = Inr tok"
  shows "tok = jwt_sign jwt \<lparr>userinfo_id = ''CouCou'', userinfo_roles = None\<rparr>
                 (JWT_SECRET e) None now"
  using assms
  by (auto simp: data_Mutation_signIn_def split: option.splits if_splits)

theorem data_signIn_token_ignores_user_witness:
  "data_Mutation_signIn demo_jwt demo_model demo_env 5000
       (Some ''alice@example.org'') (Some ''wonderland'') demo_world
     = Inr ''secret.CouCou.sssss''
   \<and> ''secret.CouCou.sssss''
     = jwt_sign demo_jwt \<lparr>userinfo_id = ''CouCou'', userinfo_roles = None\<rparr>
         (JWT_SECRET demo_env) None 5000"
proof -
  have h: "data_Mutation_signIn demo_jwt demo_model demo_env 5000
             (Some ''alice@example.org'') (Some ''wonderland'') demo_world
           = Inr ''secret.CouCou.sssss''"
    by (simp add: data_Mutation_signIn_def demo_defs eval_nat_numeral)
  from data_signIn_token_ignores_user [OF h] h show ?thesis by blast
qed

text \<open>
  C6. \<open>signIn\<close> throws \<^verbatim>\<open>INVALID_CREDENTIALS\<close> when no user has the supplied email
  address or username and when \<open>authenticate\<close> rejects the password; it throws
  \<^verbatim>\<open>UNCONFIRMED_EMAIL_ADDRESS\<close> when the password is right and \<open>emailConfirmed\<close> is
  not set; otherwise, once the user is saved, it returns the pair issued by
  \<open>getTokens\<close>.
\<close>

theorem signIn_failure_kinds:
  "(find (\<lambda>u. email u = Some x \<or> username u = x) (users w) = None \<longrightarrow>
      Mutation_signIn jwt m e now saved x pw w
        = (Inl (UserInputError ''INVALID_CREDENTIALS''), w))
   \<and> (find (\<lambda>u. email u = Some x \<or> username u = x) (users w) = Some u
        \<and> \<not> authenticate m u pw \<longrightarrow>
      Mutation_signIn jwt m e now saved x pw w
        = (Inl (UserInputError ''INVALID_CREDENTIALS''), w))
   \<and> (find (\<lambda>u. email u = Some x \<or> username u = x) (users w) = Some u
        \<and> authenticate m u pw \<and> emailConfirmed u = None \<longrightarrow>
      Mutation_signIn jwt m e now saved x pw w
        = (Inl (UserInputError ''UNCONFIRMED_EMAIL_ADDRESS''), w))
   \<and> (find (\<lambda>u. email u = Some x \<or> username u = x) (users w) = Some u
        \<and> authenticate m u pw \<and> emailConfirmed u \<noteq> None \<longrightarrow>
      Mutation_signIn jwt m e now None x pw w
        = (Inr (Some (fst (getTokens jwt e now u))),
           w\<lparr>users := save_doc (snd (getTokens jwt e now u)) (users w)\<rparr>))"
  by (simp add: signIn_cases)

theorem signIn_failure_kinds_witness:
  "Mutation_signIn demo_jwt demo_model demo_env 5000 None ''nobody'' ''wonderland'' demo_world
     = (Inl (UserInputError ''INVALID_CREDENTIALS''), demo_world)
   \<and> Mutation_signIn demo_jwt demo_model demo_env 5000 None ''alice'' ''looking-glass'' demo_world
     = (Inl (UserInputError ''INVALID_CREDENTIALS''), demo_world)
   \<and> Mutation_signIn demo_jwt demo_model demo_env 5000 None ''bob'' ''builder'' demo_world
     = (Inl (UserInputError ''UNCONFIRMED_EMAIL_ADDRESS''), demo_world)
   \<and> Mutation_signIn demo_jwt demo_model demo_env 5000 None ''alice@example.org'' ''wonderland''
       demo_world
     = (Inr (Some \<lparr>tp_token = ''access-secret.u1.sssss'',
                   tp_refreshToken = ''refresh-secret.u1.sssss''\<rparr>), signed_in_world)"
proof -
  have n: "find (\<lambda>u. email u = Some ''nobody'' \<or> username u = ''nobody'') (users demo_world)
             = None"
    by (simp add: demo_defs)
  have a: "find (\<lambda>u. email u = Some ''alice'' \<or> username u = ''alice'') (users demo_world)
             = Some alice"
    by (simp add: demo_defs)
  have a': "find (\<lambda>u. email u = Some ''alice@example.org'' \<or> username u = ''alice@example.org'')
              (users demo_world) = Some alice"
    by (simp add: demo_defs)
  have b: "find (\<lambda>u. email u = Some ''bob'' \<or> username u = ''bob'') (users demo_world)
             = Some bob"
    by (simp add: demo_defs)
  have pa: "\<not> authenticate demo_model alice ''looking-glass''"
    and pa': "authenticate demo_model alice ''wonderland''"
    and pb: "authenticate demo_model bob ''builder''"
    by (simp_all add: demo_defs)
  have ca: "emailConfirmed alice \<noteq> None" and cb: "emailConfirmed bob = None"
    by (simp_all add: demo_defs)
  have g: "fst (getTokens demo_jwt demo_env 5000 alice)
             = \<lparr>tp_token = ''access-secret.u1.sssss'',
                tp_refreshToken = ''refresh-secret.u1.sssss''\<rparr>"
    by (simp add: getTokens_issue demo_defs eval_nat_numeral)
  have s: "demo_world\<lparr>users := save_doc (snd (getTokens demo_jwt demo_env 5000 alice))
                                  (users demo_world)\<rparr> = signed_in_world"
    by (simp add: getTokens_issue save_doc_def signed_in_world_def alice_signed_in_def
                  demo_defs eval_nat_numeral)
  note t1 = signIn_failure_kinds
              [where x = "''nobody''" and w = demo_world and jwt = demo_jwt and m = demo_model
                 and e = demo_env and now = 5000 and saved = None and pw = "''wonderland''"]
  note t2 = signIn_failure_kinds
              [where x = "''alice''" and w = demo_world and jwt = demo_jwt and m = demo_model
                 and e = demo_env and now = 5000 and saved = None and pw = "''looking-glass''"
                 and u = alice]
  note t3 = signIn_failure_kinds
              [where x = "''bob''" and w = demo_world and jwt = demo_jwt and m = demo_model
                 and e = demo_env and now = 5000 and saved = None and pw = "''builder''"
                 and u = bob]
  note t4 = signIn_failure_kinds
              [where x = "''alice@example.org''" and w = demo_world and jwt = demo_jwt
                 and m = demo_model and e = demo_env and now = 5000 and saved = None
                 and pw = "''wonderland''" and u = alice]
  have r1: "Mutation_signIn demo_jwt demo_model demo_env 5000 None ''nobody'' ''wonderland''
              demo_world = (Inl (UserInputError ''INVALID_CREDENTIALS''), demo_world)"
    using t1 n by blast
  have r2: "Mutation_signIn demo_jwt demo_model demo_env 5000 None ''alice'' ''looking-glass''
              demo_world = (Inl (UserInputError ''INVALID_CREDENTIALS''), demo_world)"
    using t2 a pa by blast
  have r3: "Mutation_signIn demo_jwt demo_model demo_env 5000 None ''bob'' ''builder''
              demo_world = (Inl (UserInputError ''UNCONFIRMED_EMAIL_ADDRESS''), demo_world)"
    using t3 b pb cb by blast
  have r4: "Mutation_signIn demo_jwt demo_model demo_env 5000 None ''alice@example.org''
              ''wonderland'' demo_world
            = (Inr (Some (fst (getTokens demo_jwt demo_env 5000 alice))),
               demo_world\<lparr>users := save_doc (snd (getTokens demo_jwt demo_env 5000 alice))
                                       (users demo_world)\<rparr>)"
    using t4 a' pa' ca by blast
  from r1 r2 r3 r4 [unfolded g s] show ?thesis by blast
qed

text \<open>
  C7. The claim holds for the \<open>signUp\<close> of src/data/resolvers.js (lemma
  \<open>data_signUp_missing_fields\<close>). The \<open>signUp\<close> of src/users/resolvers.js has no such
  check: whatever its arguments and whatever the store and the transport answer, it
  never throws \<^verbatim>\<open>MISSING_FIELDS\<close>.
\<close>

theorem signUp_never_reports_missing_fields:
  "fst (Mutation_signUp m io args w) \<noteq> Inl (UserInputError ''MISSING_FIELDS'')"
  by (simp add: Mutation_signUp_def Let_def signUp_catch_not_missing
           split: option.splits list.splits)

theorem signUp_never_reports_missing_fields_witness:
  "args_firstName carol_args = None
   \<and> Mutation_signUp demo_model save_fails carol_args demo_world
       = (Inr False, demo_world\<lparr>bugsnag := [firstName_required]\<rparr>)
   \<and> fst (Mutation_signUp demo_model save_fails carol_args demo_world)
       \<noteq> Inl (UserInputError ''MISSING_FIELDS'')
   \<and> fst (Mutation_signUp demo_model all_fine carol_args demo_world) = Inr True
   \<and> fst (Mutation_signUp demo_model all_fine carol_args demo_world)
       \<noteq> Inl (UserInputError ''MISSING_FIELDS'')"
proof -
  have a: "args_firstName carol_args = None"
    by (simp add: carol_args_def)
  have b: "Mutation_signUp demo_model save_fails carol_args demo_world
             = (Inr False, demo_world\<lparr>bugsnag := [firstName_required]\<rparr>)"
    by (simp add: Mutation_signUp_def signUp_catch_def notify_def demo_defs)
  have c: "fst (Mutation_signUp demo_model all_fine carol_args demo_world) = Inr True"
    by (simp add: Mutation_signUp_def Let_def demo_defs)
  from a b c
    signUp_never_reports_missing_fields [of demo_model save_fails carol_args demo_world]
    signUp_never_reports_missing_fields [of demo_model all_fine carol_args demo_world]
  show ?thesis by blast
qed

text \<open>
  C8. For \<open>signIn\<close>, \<open>refreshToken\<close>, \<open>signOut\<close> and \<open>validateAccount\<close>: whenever
  the call succeeds with a working \<^verbatim>\<open>save()\<close>, the same call with a \<^verbatim>\<open>save()\<close> that
  is rejected with \<open>err\<close> hands \<open>err\<close> to \<^verbatim>\<open>Bugsnag.notify\<close>, changes nothing else,
  and returns \<^verbatim>\<open>null\<close> (the first two) or \<^verbatim>\<open>false\<close> (the last two), not an error.
\<close>

theorem save_failure_is_neutral:
  "(fst (Mutation_signIn jwt m e now None x pw w) = Inr (Some p) \<longrightarrow>
      Mutation_signIn jwt m e now (Some err) x pw w = (Inr None, notify err w))
   \<and> (fst (Mutation_refreshToken jwt e now None tok w) = Inr (Some p') \<longrightarrow>
      Mutation_refreshToken jwt e now (Some err) tok w = (Inr None, notify err w))
   \<and> (fst (Mutation_signOut None i w) = Inr True \<longrightarrow>
      Mutation_signOut (Some err) i w = (Inr False, notify err w))
   \<and> (fst (Mutation_validateAccount now None uname ctok w) = Inr True \<longrightarrow>
      Mutation_validateAccount now (Some err) uname ctok w = (Inr False, notify err w))
   \<and> users (notify err w) = users w \<and> bugsnag (notify err w) = bugsnag w @ [err]"
proof (intro conjI impI)
  assume "fst (Mutation_signIn jwt m e now None x pw w) = Inr (Some p)"
  then show "Mutation_signIn jwt m e now (Some err) x pw w = (Inr None, notify err w)"
    by (auto simp: signIn_cases split: option.splits if_splits)
next
  assume "fst (Mutation_refreshToken jwt e now None tok w) = Inr (Some p')"
  then show "Mutation_refreshToken jwt e now (Some err) tok w = (Inr None, notify err w)"
    by (auto simp: Mutation_refreshToken_def
             split: verified.splits option.splits if_splits prod.splits)
next
  assume "fst (Mutation_signOut None i w) = Inr True"
  then show "Mutation_signOut (Some err) i w = (Inr False, notify err w)"
    by (auto simp: signOut_cases split: option.splits)
next
  assume "fst (Mutation_validateAccount now None uname ctok w) = Inr True"
  then show "Mutation_validateAccount now (Some err) uname ctok w = (Inr False, notify err w)"
    by (auto simp: validateAccount_cases split: option.splits if_splits)
qed (simp_all add: notify_def)

theorem save_failure_is_neutral_witness:
  "Mutation_signIn demo_jwt demo_model demo_env 5000 (Some disk_error) ''alice'' ''wonderland''
       demo_world = (Inr None, demo_world\<lparr>bugsnag := [disk_error]\<rparr>)
   \<and> Mutation_refreshToken demo_jwt demo_env 5000 (Some disk_error) ''refresh-secret.u1.''
       demo_world = (Inr None, demo_world\<lparr>bugsnag := [disk_error]\<rparr>)
   \<and> Mutation_signOut (Some disk_error) ''u1'' demo_world
       = (Inr False, demo_world\<lparr>bugsnag := [disk_error]\<rparr>)
   \<and> Mutation_validateAccount 1000 (Some disk_error) ''bob'' ''c0ffee'' demo_world
       = (Inr False, demo_world\<lparr>bugsnag := [disk_error]\<rparr>)"
proof -
  let ?p = "\<lparr>tp_token = ''access-secret.u1.sssss'',
             tp_refreshToken = ''refresh-secret.u1.sssss''\<rparr>"
  have h1: "fst (Mutation_signIn demo_jwt demo_model demo_env 5000 None ''alice'' ''wonderland''
              demo_world) = Inr (Some ?p)"
    by (simp add: signIn_cases getTokens_issue demo_defs eval_nat_numeral)
  have h2: "fst (Mutation_refreshToken demo_jwt demo_env 5000 None ''refresh-secret.u1.''
              demo_world) = Inr (Some ?p)"
    by (simp add: Mutation_refreshToken_def getTokens_issue expiry_test_never_holds
                  demo_defs eval_nat_numeral)
  have h3: "fst (Mutation_signOut None ''u1'' demo_world) = Inr True"
    by (simp add: signOut_cases demo_defs)
  have h4: "fst (Mutation_validateAccount 1000 None ''bob'' ''c0ffee'' demo_world) = Inr True"
    by (simp add: validateAccount_cases demo_defs)
  have n: "notify disk_error demo_world = demo_world\<lparr>bugsnag := [disk_error]\<rparr>"
    by (simp add: notify_def demo_world_def)
  note t = save_failure_is_neutral
             [where jwt = demo_jwt and m = demo_model and e = demo_env and now = 5000
                and x = "''alice''" and pw = "''wonderland''" and w = demo_world and p = ?p
                and p' = ?p and tok = "''refresh-secret.u1.''" and i = "''u1''"
                and err = disk_error, unfolded n]
  note t' = save_failure_is_neutral
              [where now = 1000 and uname = "''bob''" and ctok = "''c0ffee''" and w = demo_world
                 and err = disk_error, unfolded n]
  from t t' h1 h2 h3 h4 show ?thesis by blast
qed

text \<open>
  C9. \<open>signOut\<close> clears and saves the refresh state, is idempotent and throws no
  \<^verbatim>\<open>UserInputError\<close> (lemma \<open>signOut_clears_refresh_state\<close>). The last part of the
  claim, that a later \<open>refreshToken\<close> call with the last-issued token fails with
  \<^verbatim>\<open>INVALID_REFRESH_TOKEN\<close>, does not hold once \<^verbatim>\<open>jwt.verify\<close> rejects that token,
  as it does after the fourteen days of the token: the exception of \<^verbatim>\<open>jwt.verify\<close>
  leaves \<open>refreshToken\<close> before it looks at the user, and the call fails with
  \<^verbatim>\<open>TokenExpiredError\<close>.
\<close>

theorem signOut_then_rejected_token_throws:
  assumes found: "find (\<lambda>v. uid v = i) (users w) = Some u"
    and last_issued: "refreshToken u = Some t"
    and out: "Mutation_signOut None i w = (Inr True, w')"
    and rejected: "jwt_verify jwt t (JWT_REFRESH_TOKEN_SECRET e) now = Throws err"
  shows "find (\<lambda>v. uid v = i) (users w')
           = Some (u\<lparr>refreshToken := None, refreshTokenExpires := None\<rparr>)
       \<and> Mutation_refreshToken jwt e now saved t w' = (Inl (Thrown err), w')
       \<and> fst (Mutation_refreshToken jwt e now saved t w')
           \<noteq> Inl (UserInputError ''INVALID_REFRESH_TOKEN'')"
proof -
  from out have w': "w' = snd (Mutation_signOut None i w)"
    by simp
  from signOut_clears_refresh_state [OF found w']
  have "find (\<lambda>v. uid v = i) (users w')
          = Some (u\<lparr>refreshToken := None, refreshTokenExpires := None\<rparr>)"
    by blast
  moreover have "Mutation_refreshToken jwt e now saved t w' = (Inl (Thrown err), w')"
    using rejected by (rule refreshToken_throws)
  ultimately show ?thesis by simp
qed

theorem signOut_then_rejected_token_throws_witness:
  "refreshToken alice = Some ''refresh-secret.u1.''
   \<and> Mutation_signOut None ''u1'' demo_world = (Inr True, signed_out_world)
   \<and> find (\<lambda>v. uid v = ''u1'') (users signed_out_world) = Some alice_signed_out
   \<and> Mutation_refreshToken demo_jwt demo_env 1209600000 None ''refresh-secret.u1.''
       signed_out_world
       = (Inl (Thrown TokenExpiredError), signed_out_world)
   \<and> fst (Mutation_refreshToken demo_jwt demo_env 1209600000 None ''refresh-secret.u1.''
            signed_out_world)
       \<noteq> Inl (UserInputError ''INVALID_REFRESH_TOKEN'')"
proof -
  have h1: "find (\<lambda>v. uid v = ''u1'') (users demo_world) = Some alice"
    by (simp add: demo_defs)
  have h2: "refreshToken alice = Some ''refresh-secret.u1.''"
    by (simp add: alice_def)
  have h3: "Mutation_signOut None ''u1'' demo_world = (Inr True, signed_out_world)"
    by (simp add: signOut_cases save_doc_def signed_out_world_def alice_signed_out_def demo_defs)
  have h4: "jwt_verify demo_jwt ''refresh-secret.u1.'' (JWT_REFRESH_TOKEN_SECRET demo_env)
              1209600000 = Throws TokenExpiredError"
    by (simp add: demo_jwt_def demo_env_def demo_verify_def)
  note t = signOut_then_rejected_token_throws [OF h1 h2 h3 h4, of None,
             folded alice_signed_out_def]
  from h2 h3 t show ?thesis by blast
qed

text \<open>
  C10. In \<open>signIn\<close> the password is checked before the confirmation status: for a user
  whose password \<open>authenticate\<close> rejects, \<open>signIn\<close> throws \<^verbatim>\<open>INVALID_CREDENTIALS\<close>
  whether or not \<open>emailConfirmed\<close> is set, and \<^verbatim>\<open>UNCONFIRMED_EMAIL_ADDRESS\<close> is thrown
  only for a user whose password \<open>authenticate\<close> accepts.
\<close>

theorem signIn_password_before_confirmation:
  "(find (\<lambda>u. email u = Some x \<or> username u = x) (users w) = Some u
      \<and> \<not> authenticate m u pw \<longrightarrow>
        fst (Mutation_signIn jwt m e now saved x pw w) = Inl (UserInputError ''INVALID_CREDENTIALS'')
        \<and> fst (Mutation_signIn jwt m e now saved x pw w)
            \<noteq> Inl (UserInputError ''UNCONFIRMED_EMAIL_ADDRESS''))
   \<and> (fst (Mutation_signIn jwt m e now saved x pw w)
          = Inl (UserInputError ''UNCONFIRMED_EMAIL_ADDRESS'') \<longrightarrow>
        (\<exists>v. find (\<lambda>u. email u = Some x \<or> username u = x) (users w) = Some v
            \<and> authenticate m v pw \<and> emailConfirmed v = None))"
  by (auto simp: signIn_cases split: option.splits if_splits)

theorem signIn_password_before_confirmation_witness:
  "emailConfirmed bob = None
   \<and> fst (Mutation_signIn demo_jwt demo_model demo_env 5000 None ''bob'' ''wrong'' demo_world)
       = Inl (UserInputError ''INVALID_CREDENTIALS'')
   \<and> fst (Mutation_signIn demo_jwt demo_model demo_env 5000 None ''bob'' ''wrong'' demo_world)
       \<noteq> Inl (UserInputError ''UNCONFIRMED_EMAIL_ADDRESS'')"
proof -
  have b: "find (\<lambda>u. email u = Some ''bob'' \<or> username u = ''bob'') (users demo_world)
             = Some bob"
    by (simp add: demo_defs)
  have p: "\<not> authenticate demo_model bob ''wrong''"
    by (simp add: demo_defs)
  have c: "emailConfirmed bob = None"
    by (simp add: demo_defs)
  note t = signIn_password_before_confirmation
             [where x = "''bob''" and w = demo_world and u = bob and m = demo_model
                and pw = "''wrong''" and jwt = demo_jwt and e = demo_env and now = 5000
                and saved = None]
  from t b p c show ?thesis by blast
qed

end
